theory Spec2Isabelle
  imports Main "HOL-Library.Word"
begin

section \<open>The PitchRegistry contract\<close>

text \<open>
  A shallow embedding of \<^verbatim>\<open>src/Pitch-registry.sol\<close>. Solidity's value types are machine
  words: \<^verbatim>\<open>uint256\<close> and \<^verbatim>\<open>bytes32\<close> are 256 bits wide, \<^verbatim>\<open>address\<close> is 160 bits wide.
\<close>

type_synonym uint256 = "256 word"
type_synonym bytes32 = "256 word"
type_synonym address = "160 word"

subsection \<open>Storage layout, event and execution context\<close>

text \<open>The struct \<^verbatim>\<open>PitchScoreEntry\<close>, field by field.\<close>

record PitchScoreEntry =
  overallScore :: uint256
  clarityScore :: uint256
  originalityScore :: uint256
  teamStrengthScore :: uint256
  marketFitScore :: uint256
  zkpHash :: bytes32
  timestamp :: uint256
  recordedBy :: address

text \<open>The event \<^verbatim>\<open>PitchScoreRecorded\<close>; its arguments in declaration order.\<close>

record PitchScoreRecorded =
  ev_pitchId :: bytes32
  ev_overallScore :: uint256
  ev_zkpHash :: bytes32
  ev_timestamp :: uint256
  ev_recordedBy :: address

text \<open>
  The contract's two state variables. A Solidity mapping is total: a key never written
  reads as the all-zero value of the struct.
\<close>

record PitchRegistry =
  pitchScores :: "bytes32 \<Rightarrow> PitchScoreEntry"
  owner :: address

text \<open>What the body reads from the execution substrate: \<^verbatim>\<open>msg.sender\<close> and \<^verbatim>\<open>block.timestamp\<close>.\<close>

record env =
  msg_sender :: address
  block_timestamp :: uint256

definition zero_entry :: PitchScoreEntry where
  "zero_entry = \<lparr>overallScore = 0, clarityScore = 0, originalityScore = 0,
     teamStrengthScore = 0, marketFitScore = 0, zkpHash = 0, timestamp = 0, recordedBy = 0\<rparr>"

subsection \<open>Statements: state threading with revert\<close>

text \<open>
  While a call runs it works on the contract storage and appends to the transaction's log.
  A statement either completes with a value or stops with the message of the failed
  \<^verbatim>\<open>require\<close>; in both cases it hands back the machine state it has reached.
\<close>

record machine =
  storage :: PitchRegistry
  emitted :: "PitchScoreRecorded list"

type_synonym 'a exec = "machine \<Rightarrow> (string + 'a) \<times> machine"

definition return_val :: "'a \<Rightarrow> 'a exec" where
  "return_val v \<sigma> = (Inr v, \<sigma>)"

definition then_do :: "'a exec \<Rightarrow> ('a \<Rightarrow> 'b exec) \<Rightarrow> 'b exec" where
  "then_do m f \<sigma> = (case m \<sigma> of (Inl msg, \<sigma>') \<Rightarrow> (Inl msg, \<sigma>') | (Inr v, \<sigma>') \<Rightarrow> f v \<sigma>')"

definition require :: "(machine \<Rightarrow> bool) \<Rightarrow> string \<Rightarrow> unit exec" where
  "require cond msg \<sigma> = (if cond \<sigma> then (Inr (), \<sigma>) else (Inl msg, \<sigma>))"

definition assign_pitchScores :: "bytes32 \<Rightarrow> PitchScoreEntry \<Rightarrow> unit exec" where
  "assign_pitchScores pid entry \<sigma> =
     (Inr (), \<sigma>\<lparr>storage := (storage \<sigma>)\<lparr>pitchScores := (pitchScores (storage \<sigma>))(pid := entry)\<rparr>\<rparr>)"

definition emit :: "PitchScoreRecorded \<Rightarrow> unit exec" where
  "emit ev \<sigma> = (Inr (), \<sigma>\<lparr>emitted := emitted \<sigma> @ [ev]\<rparr>)"

subsection \<open>The contract's code\<close>

text \<open>
  The revert messages of the four \<^verbatim>\<open>require\<close> statements, under the names of the error
  kinds they stand for.
\<close>

definition Unauthorized :: string where
  "Unauthorized = ''Only owner can call this function''"

definition DuplicateEntry :: string where
  "DuplicateEntry = ''Pitch score already recorded for this ID''"

definition InvalidScore :: string where
  "InvalidScore = ''Overall score must be positive''"

definition NotFound :: string where
  "NotFound = ''Pitch score not found for this ID''"

text \<open>The constructor runs on zero-initialised storage and stores the deployer as owner.\<close>

definition constructor :: "env \<Rightarrow> PitchRegistry" where
  "constructor e = \<lparr>pitchScores = (\<lambda>_. zero_entry), owner = 0\<rparr>\<lparr>owner := msg_sender e\<rparr>"

text \<open>The modifier \<^verbatim>\<open>onlyOwner\<close>: its \<^verbatim>\<open>require\<close>, then the body it wraps.\<close>

definition onlyOwner :: "env \<Rightarrow> 'a exec \<Rightarrow> 'a exec" where
  "onlyOwner e body =
     then_do (require (\<lambda>\<sigma>. msg_sender e = owner (storage \<sigma>)) Unauthorized) (\<lambda>_. body)"

definition recordPitchScore ::
  "env \<Rightarrow> bytes32 \<Rightarrow> uint256 \<Rightarrow> uint256 \<Rightarrow> uint256 \<Rightarrow> uint256 \<Rightarrow> uint256 \<Rightarrow> bytes32 \<Rightarrow> unit exec" where
  "recordPitchScore e pitchId overall clarity originality teamStrength marketFit zkp =
     onlyOwner e
       (then_do (require (\<lambda>\<sigma>. timestamp (pitchScores (storage \<sigma>) pitchId) = 0) DuplicateEntry) (\<lambda>_.
        then_do (require (\<lambda>_. 0 < overall) InvalidScore) (\<lambda>_.
        then_do (assign_pitchScores pitchId
                   \<lparr>overallScore = overall, clarityScore = clarity,
                    originalityScore = originality, teamStrengthScore = teamStrength,
                    marketFitScore = marketFit, zkpHash = zkp,
                    timestamp = block_timestamp e, recordedBy = msg_sender e\<rparr>) (\<lambda>_.
        emit \<lparr>ev_pitchId = pitchId, ev_overallScore = overall, ev_zkpHash = zkp,
              ev_timestamp = block_timestamp e, ev_recordedBy = msg_sender e\<rparr>))))"

type_synonym entry_tuple =
  "uint256 \<times> uint256 \<times> uint256 \<times> uint256 \<times> uint256 \<times> bytes32 \<times> uint256 \<times> address"

definition entry_fields :: "PitchScoreEntry \<Rightarrow> entry_tuple" where
  "entry_fields entry =
     (overallScore entry, clarityScore entry, originalityScore entry, teamStrengthScore entry,
      marketFitScore entry, zkpHash entry, timestamp entry, recordedBy entry)"

definition getPitchScore :: "bytes32 \<Rightarrow> entry_tuple exec" where
  "getPitchScore pitchId =
     then_do (require (\<lambda>\<sigma>. timestamp (pitchScores (storage \<sigma>) pitchId) \<noteq> 0) NotFound) (\<lambda>_.
     (\<lambda>\<sigma>. return_val (entry_fields (pitchScores (storage \<sigma>) pitchId)) \<sigma>))"

text \<open>
  The getters the compiler generates for the two \<^verbatim>\<open>public\<close> state variables: they read
  storage and have no \<^verbatim>\<open>require\<close>.
\<close>

definition pitchScores_getter :: "bytes32 \<Rightarrow> entry_tuple exec" where
  "pitchScores_getter pitchId \<sigma> = return_val (entry_fields (pitchScores (storage \<sigma>) pitchId)) \<sigma>"

definition owner_getter :: "address exec" where
  "owner_getter \<sigma> = return_val (owner (storage \<sigma>)) \<sigma>"

subsection \<open>Transactions on the public interface\<close>

text \<open>The four externally callable functions of the contract, with their arguments.\<close>

datatype call =
    RecordPitchScore bytes32 uint256 uint256 uint256 uint256 uint256 bytes32
  | GetPitchScore bytes32
  | PitchScores bytes32
  | Owner

datatype retval = RetUnit | RetEntry entry_tuple | RetAddress address

fun dispatch :: "env \<Rightarrow> call \<Rightarrow> retval exec" where
  "dispatch e (RecordPitchScore pitchId overall clarity originality teamStrength marketFit zkp) =
     then_do (recordPitchScore e pitchId overall clarity originality teamStrength marketFit zkp)
       (\<lambda>_. return_val RetUnit)"
| "dispatch e (GetPitchScore pitchId) = then_do (getPitchScore pitchId) (\<lambda>t. return_val (RetEntry t))"
| "dispatch e (PitchScores pitchId) = then_do (pitchScores_getter pitchId) (\<lambda>t. return_val (RetEntry t))"
| "dispatch e Owner = then_do owner_getter (\<lambda>a. return_val (RetAddress a))"

text \<open>
  A call as a transaction: it starts with an empty log; when it reverts, the storage is
  the one before the call and the log is dropped.
\<close>

record receipt =
  status :: "string + retval"
  post :: PitchRegistry
  events :: "PitchScoreRecorded list"

definition transact :: "env \<Rightarrow> call \<Rightarrow> PitchRegistry \<Rightarrow> receipt" where
  "transact e c s =
     (case dispatch e c \<lparr>storage = s, emitted = []\<rparr> of
        (Inl msg, \<sigma>') \<Rightarrow> \<lparr>status = Inl msg, post = s, events = []\<rparr>
      | (Inr v, \<sigma>') \<Rightarrow> \<lparr>status = Inr v, post = storage \<sigma>', events = emitted \<sigma>'\<rparr>)"

text \<open>The storage after a sequence of transactions, each with its own context.\<close>

fun run :: "(env \<times> call) list \<Rightarrow> PitchRegistry \<Rightarrow> PitchRegistry" where
  "run [] s = s"
| "run ((e, c) # txs) s = run txs (post (transact e c s))"

text \<open>Whether some transaction of the sequence was a \<^verbatim>\<open>recordPitchScore\<close> for the id that did not revert.\<close>

fun writes_to :: "bytes32 \<Rightarrow> call \<Rightarrow> bool" where
  "writes_to pid (RecordPitchScore pitchId _ _ _ _ _ _) = (pitchId = pid)"
| "writes_to pid _ = False"

fun recorded :: "bytes32 \<Rightarrow> (env \<times> call) list \<Rightarrow> PitchRegistry \<Rightarrow> bool" where
  "recorded pid [] s = False"
| "recorded pid ((e, c) # txs) s =
     ((writes_to pid c \<and> \<not> isl (status (transact e c s)))
      \<or> recorded pid txs (post (transact e c s)))"

subsection \<open>Block timestamps\<close>

text \<open>
  \<^verbatim>\<open>block.timestamp\<close> is the Unix time of the block that carries the transaction, in
  seconds; it is never 0. \<open>live\<close> says so of one context, \<open>live_trace\<close> of every
  context in a sequence of transactions.
\<close>

definition live :: "env \<Rightarrow> bool" where
  "live e = (block_timestamp e \<noteq> 0)"

fun live_trace :: "(env \<times> call) list \<Rightarrow> bool" where
  "live_trace [] = True"
| "live_trace ((e, c) # txs) = (live e \<and> live_trace txs)"

subsection \<open>An invariant of single entries\<close>

text \<open>
  A slot of the mapping is either untouched or holds a positive overall score recorded
  by the owner.
\<close>

definition entry_ok :: "PitchRegistry \<Rightarrow> bytes32 \<Rightarrow> bool" where
  "entry_ok s p = (pitchScores s p = zero_entry \<or>
      (0 < overallScore (pitchScores s p) \<and> recordedBy (pitchScores s p) = owner s))"

subsection \<open>Concrete identities, identifiers and calls\<close>

text \<open>
  Two accounts, three pitch identifiers, a registry deployed by \<open>writer\<close>, and two
  different score submissions for the identifier \<open>H1\<close>.
\<close>

definition writer :: address where
  "writer = 1001"

definition stranger :: address where
  "stranger = 2002"

definition H1 :: bytes32 where
  "H1 = 1"

definition H2 :: bytes32 where
  "H2 = 2"

definition H3 :: bytes32 where
  "H3 = 3"

definition fresh_registry :: PitchRegistry where
  "fresh_registry = constructor \<lparr>msg_sender = writer, block_timestamp = 1000\<rparr>"

definition scenarioA :: call where
  "scenarioA = RecordPitchScore H1 80 20 18 22 20 170"

definition scenarioB :: call where
  "scenarioB = RecordPitchScore H1 55 10 15 20 10 187"

section \<open>Basic facts about the embedding\<close>

lemmas fixtures = writer_def stranger_def H1_def H2_def H3_def fresh_registry_def
  scenarioA_def scenarioB_def constructor_def


lemma error_kinds_distinct:
  "Unauthorized \<noteq> DuplicateEntry" "Unauthorized \<noteq> InvalidScore" "Unauthorized \<noteq> NotFound"
  "DuplicateEntry \<noteq> InvalidScore" "DuplicateEntry \<noteq> NotFound" "InvalidScore \<noteq> NotFound"
  by (simp_all add: Unauthorized_def DuplicateEntry_def InvalidScore_def NotFound_def)

lemma recordPitchScore_run:
  "recordPitchScore e p a b c d f z \<sigma> =
     (if msg_sender e \<noteq> owner (storage \<sigma>) then (Inl Unauthorized, \<sigma>)
      else if timestamp (pitchScores (storage \<sigma>) p) \<noteq> 0 then (Inl DuplicateEntry, \<sigma>)
      else if \<not> 0 < a then (Inl InvalidScore, \<sigma>)
      else (Inr (),
            \<sigma>\<lparr>storage := (storage \<sigma>)\<lparr>pitchScores := (pitchScores (storage \<sigma>))(p :=
                 \<lparr>overallScore = a, clarityScore = b, originalityScore = c,
                  teamStrengthScore = d, marketFitScore = f, zkpHash = z,
                  timestamp = block_timestamp e, recordedBy = msg_sender e\<rparr>)\<rparr>,
              emitted := emitted \<sigma> @ [\<lparr>ev_pitchId = p, ev_overallScore = a, ev_zkpHash = z,
                  ev_timestamp = block_timestamp e, ev_recordedBy = msg_sender e\<rparr>]\<rparr>))"
  by (simp add: recordPitchScore_def onlyOwner_def then_do_def require_def
      assign_pitchScores_def emit_def)

lemma getPitchScore_run:
  "getPitchScore p \<sigma> =
     (if timestamp (pitchScores (storage \<sigma>) p) \<noteq> 0
      then (Inr (entry_fields (pitchScores (storage \<sigma>) p)), \<sigma>) else (Inl NotFound, \<sigma>))"
  by (simp add: getPitchScore_def then_do_def require_def return_val_def)

lemma transact_record:
  "transact e (RecordPitchScore p a b c d f z) s =
     (if msg_sender e \<noteq> owner s then \<lparr>status = Inl Unauthorized, post = s, events = []\<rparr>
      else if timestamp (pitchScores s p) \<noteq> 0 then \<lparr>status = Inl DuplicateEntry, post = s, events = []\<rparr>
      else if \<not> 0 < a then \<lparr>status = Inl InvalidScore, post = s, events = []\<rparr>
      else \<lparr>status = Inr RetUnit,
            post = s\<lparr>pitchScores := (pitchScores s)(p :=
                 \<lparr>overallScore = a, clarityScore = b, originalityScore = c,
                  teamStrengthScore = d, marketFitScore = f, zkpHash = z,
                  timestamp = block_timestamp e, recordedBy = msg_sender e\<rparr>)\<rparr>,
            events = [\<lparr>ev_pitchId = p, ev_overallScore = a, ev_zkpHash = z,
                  ev_timestamp = block_timestamp e, ev_recordedBy = msg_sender e\<rparr>]\<rparr>)"
  by (simp add: transact_def recordPitchScore_run then_do_def return_val_def)

lemma transact_get:
  "transact e (GetPitchScore p) s =
     \<lparr>status = (if timestamp (pitchScores s p) \<noteq> 0
                then Inr (RetEntry (entry_fields (pitchScores s p))) else Inl NotFound),
      post = s, events = []\<rparr>"
  by (simp add: transact_def getPitchScore_run then_do_def return_val_def)

lemma transact_getter:
  "transact e (PitchScores p) s =
     \<lparr>status = Inr (RetEntry (entry_fields (pitchScores s p))), post = s, events = []\<rparr>"
  by (simp add: transact_def pitchScores_getter_def then_do_def return_val_def)

lemma transact_owner:
  "transact e Owner s = \<lparr>status = Inr (RetAddress (owner s)), post = s, events = []\<rparr>"
  by (simp add: transact_def owner_getter_def then_do_def return_val_def)

lemmas transact_simps = transact_record transact_get transact_getter transact_owner

lemma post_owner: "owner (post (transact e c s)) = owner s"
  by (cases c) (simp_all add: transact_simps)

lemma run_owner: "owner (run txs s) = owner s"
  by (induction txs arbitrary: s) (auto simp: post_owner)

lemma post_keeps_entry:
  "timestamp (pitchScores s p) \<noteq> 0 \<Longrightarrow> pitchScores (post (transact e c s)) p = pitchScores s p"
  by (cases c) (auto simp: transact_simps)

lemma run_keeps_entry:
  "timestamp (pitchScores s p) \<noteq> 0 \<Longrightarrow> pitchScores (run txs s) p = pitchScores s p"
proof (induction txs arbitrary: s)
  case Nil
  show ?case by simp
next
  case (Cons tx txs)
  obtain e c where tx: "tx = (e, c)" by (cases tx)
  have keep: "pitchScores (post (transact e c s)) p = pitchScores s p"
    using Cons.prems by (rule post_keeps_entry)
  with Cons.prems have "timestamp (pitchScores (post (transact e c s)) p) \<noteq> 0" by simp
  from Cons.IH [OF this] keep show ?case by (simp add: tx)
qed

lemma entry_ok_constructor: "entry_ok (constructor e) p"
  by (simp add: entry_ok_def constructor_def)

lemma entry_ok_post: "entry_ok s p \<Longrightarrow> entry_ok (post (transact e c s)) p"
  by (cases c) (auto simp: transact_simps entry_ok_def)

lemma entry_ok_run: "entry_ok s p \<Longrightarrow> entry_ok (run txs s) p"
  by (induction txs arbitrary: s) (auto simp: entry_ok_post)

lemma unrecorded_post:
  "\<not> (writes_to p c \<and> \<not> isl (status (transact e c s))) \<Longrightarrow>
   pitchScores (post (transact e c s)) p = pitchScores s p"
  by (cases c) (auto simp: transact_simps)

lemma unrecorded_run:
  "\<not> recorded p txs s \<Longrightarrow> pitchScores (run txs s) p = pitchScores s p"
proof (induction txs arbitrary: s)
  case Nil
  show ?case by simp
next
  case (Cons tx txs)
  obtain e c where tx: "tx = (e, c)" by (cases tx)
  from Cons.prems have a: "\<not> (writes_to p c \<and> \<not> isl (status (transact e c s)))"
    and b: "\<not> recorded p txs (post (transact e c s))" by (simp_all add: tx)
  from Cons.IH [OF b] unrecorded_post [OF a] show ?case by (simp add: tx)
qed


lemma written_post:
  "writes_to p c \<Longrightarrow> \<not> isl (status (transact e c s)) \<Longrightarrow>
   timestamp (pitchScores (post (transact e c s)) p) = block_timestamp e"
  by (cases c) (auto simp: transact_simps split: if_splits)

lemma recorded_live:
  "live_trace txs \<Longrightarrow> recorded p txs s \<Longrightarrow> timestamp (pitchScores (run txs s) p) \<noteq> 0"
proof (induction txs arbitrary: s)
  case Nil
  then show ?case by simp
next
  case (Cons tx txs)
  obtain e c where tx: "tx = (e, c)" by (cases tx)
  from Cons.prems have le: "live e" and lt: "live_trace txs" by (simp_all add: tx)
  show ?case
  proof (cases "writes_to p c \<and> \<not> isl (status (transact e c s))")
    case True
    then have "timestamp (pitchScores (post (transact e c s)) p) = block_timestamp e"
      by (simp add: written_post)
    with le have now: "timestamp (pitchScores (post (transact e c s)) p) \<noteq> 0"
      by (simp add: live_def)
    from run_keeps_entry [OF now, of txs] now show ?thesis
      by (simp add: tx)
  next
    case False
    with Cons.prems have "recorded p txs (post (transact e c s))"
      by (simp add: tx)
    from Cons.IH [OF lt this] show ?thesis
      by (simp add: tx)
  qed
qed

lemma constructor_entries: "pitchScores (constructor e) p = zero_entry"
  by (simp add: constructor_def)

lemma constructor_owner: "owner (constructor e) = msg_sender e"
  by (simp add: constructor_def)

lemma recordPitchScore_fails_in_place:
  "isl (fst (recordPitchScore e p a b c d f z \<sigma>)) \<Longrightarrow> snd (recordPitchScore e p a b c d f z \<sigma>) = \<sigma>"
  by (simp add: recordPitchScore_run split: if_splits)

section \<open>The properties of the registry\<close>

subsection \<open>Write-once\<close>

text \<open>
  C1 (write-once), as the code has it. Once a \<^verbatim>\<open>recordPitchScore\<close> call for an id has
  succeeded in a block of the chain (its context is \<open>live\<close>), every later \<^verbatim>\<open>recordPitchScore\<close> call for that id, whatever scores and proof
  hash it carries and whatever transactions ran in between, reverts: with
  \<open>DuplicateEntry\<close> when the owner sends it, with \<open>Unauthorized\<close> when anybody else does.
  The call changes nothing, emits nothing, and the id still maps to the entry the first
  call stored.
\<close>

theorem write_once:
  assumes "r = transact e (RecordPitchScore p a b c d f z) s"
    and "status r = Inr v"
    and "live e"
    and "s' = run txs (post r)"
    and "r' = transact e' (RecordPitchScore p a' b' c' d' f' z') s'"
  shows "status r' = Inl (if msg_sender e' = owner s then DuplicateEntry else Unauthorized)
       \<and> post r' = s' \<and> events r' = []
       \<and> pitchScores (post r') p = pitchScores (post r) p
       \<and> pitchScores (post r) p =
           \<lparr>overallScore = a, clarityScore = b, originalityScore = c, teamStrengthScore = d,
            marketFitScore = f, zkpHash = z, timestamp = block_timestamp e,
            recordedBy = msg_sender e\<rparr>"
proof -
  from assms(3) have ts: "block_timestamp e \<noteq> 0"
    by (simp add: live_def)
  from assms(1,2) have written: "pitchScores (post r) p =
      \<lparr>overallScore = a, clarityScore = b, originalityScore = c, teamStrengthScore = d,
       marketFitScore = f, zkpHash = z, timestamp = block_timestamp e,
       recordedBy = msg_sender e\<rparr>"
    by (simp add: transact_record split: if_splits)
  with ts have "timestamp (pitchScores (post r) p) \<noteq> 0" by simp
  then have kept: "pitchScores s' p = pitchScores (post r) p"
    unfolding assms(4) by (rule run_keeps_entry)
  have own: "owner s' = owner s"
    by (simp add: assms(1,4) run_owner post_owner)
  from kept written ts have "timestamp (pitchScores s' p) \<noteq> 0" by simp
  with own kept written show ?thesis
    by (simp add: assms(5) transact_record)
qed

text \<open>
  The theorem at work: the owner records \<open>H1\<close> at time 5000, a stranger and then the owner
  try other scores for \<open>H1\<close>; the owner's attempt is a duplicate and the score stays 80.
\<close>

theorem write_once_witness:
  "status (transact \<lparr>msg_sender = writer, block_timestamp = 5000\<rparr> scenarioA fresh_registry) = Inr RetUnit
   \<and> live \<lparr>msg_sender = writer, block_timestamp = 5000\<rparr>
   \<and> status (transact \<lparr>msg_sender = writer, block_timestamp = 6000\<rparr> scenarioB
        (run [(\<lparr>msg_sender = stranger, block_timestamp = 5500\<rparr>, scenarioB)]
          (post (transact \<lparr>msg_sender = writer, block_timestamp = 5000\<rparr> scenarioA fresh_registry))))
       = Inl DuplicateEntry
   \<and> overallScore (pitchScores (post (transact \<lparr>msg_sender = writer, block_timestamp = 6000\<rparr> scenarioB
        (run [(\<lparr>msg_sender = stranger, block_timestamp = 5500\<rparr>, scenarioB)]
          (post (transact \<lparr>msg_sender = writer, block_timestamp = 5000\<rparr> scenarioA fresh_registry))))) H1) = 80"
proof -
  have h1: "status (transact \<lparr>msg_sender = writer, block_timestamp = 5000\<rparr>
              (RecordPitchScore H1 80 20 18 22 20 170) fresh_registry) = Inr RetUnit"
    by (simp add: transact_record fixtures zero_entry_def)
  have h2: "live \<lparr>msg_sender = writer, block_timestamp = 5000\<rparr>"
    by (simp add: live_def)
  from write_once [OF refl h1 h2 refl refl,
      where txs = "[(\<lparr>msg_sender = stranger, block_timestamp = 5500\<rparr>, scenarioB)]"
        and e' = "\<lparr>msg_sender = writer, block_timestamp = 6000\<rparr>"
        and a' = 55 and b' = 10 and c' = 15 and d' = 20 and f' = 10 and z' = 187]
  show ?thesis using h1 h2
    by (simp add: transact_record fixtures zero_entry_def)
qed

text \<open>
  The later call does not always report \<open>DuplicateEntry\<close>: the sender is checked first,
  so after the owner has recorded \<open>H1\<close> a stranger's write for \<open>H1\<close> reverts with
  \<open>Unauthorized\<close>.
\<close>

theorem write_once_counterexample:
  "status (transact \<lparr>msg_sender = writer, block_timestamp = 5000\<rparr> scenarioA fresh_registry) = Inr RetUnit
   \<and> status (transact \<lparr>msg_sender = stranger, block_timestamp = 6000\<rparr> scenarioB
        (post (transact \<lparr>msg_sender = writer, block_timestamp = 5000\<rparr> scenarioA fresh_registry)))
       = Inl Unauthorized
   \<and> Unauthorized \<noteq> DuplicateEntry"
  by (simp add: transact_record fixtures zero_entry_def error_kinds_distinct)

subsection \<open>Authorization\<close>

text \<open>
  C2 (authorization). In any state reached from deployment, a \<^verbatim>\<open>recordPitchScore\<close> call
  whose sender is not the deployer reverts with \<open>Unauthorized\<close>, leaves the storage as it
  was and emits nothing, whatever the id and the payload; and \<open>Unauthorized\<close> is the
  outcome only for such senders.
\<close>

theorem unauthorized_caller_rejected:
  "(msg_sender e \<noteq> msg_sender e0 \<longrightarrow>
      transact e (RecordPitchScore p a b c d f z) (run txs (constructor e0)) =
        \<lparr>status = Inl Unauthorized, post = run txs (constructor e0), events = []\<rparr>)
   \<and> (status (transact e (RecordPitchScore p a b c d f z) (run txs (constructor e0))) = Inl Unauthorized
        \<longleftrightarrow> msg_sender e \<noteq> msg_sender e0)"
  by (simp add: transact_record run_owner constructor_owner error_kinds_distinct [symmetric])

text \<open>A stranger submits valid scores for the fresh id \<open>H2\<close>.\<close>

theorem unauthorized_caller_rejected_witness:
  "msg_sender \<lparr>msg_sender = stranger, block_timestamp = 5000\<rparr> \<noteq>
     msg_sender \<lparr>msg_sender = writer, block_timestamp = 1000\<rparr>
   \<and> transact \<lparr>msg_sender = stranger, block_timestamp = 5000\<rparr>
        (RecordPitchScore H2 80 20 18 22 20 170)
        (run [] (constructor \<lparr>msg_sender = writer, block_timestamp = 1000\<rparr>)) =
      \<lparr>status = Inl Unauthorized,
       post = run [] (constructor \<lparr>msg_sender = writer, block_timestamp = 1000\<rparr>), events = []\<rparr>"
  using unauthorized_caller_rejected
    [of "\<lparr>msg_sender = stranger, block_timestamp = 5000\<rparr>"
        "\<lparr>msg_sender = writer, block_timestamp = 1000\<rparr>" H2 80 20 18 22 20 170 "[]"]
  by (simp add: writer_def stranger_def)

subsection \<open>Atomicity of the write path\<close>

text \<open>
  C3 (atomicity). A \<^verbatim>\<open>recordPitchScore\<close> call fails exactly when one of its three
  preconditions does (sender is the owner, no entry for the id, positive overall score).
  A failed call leaves the storage as it was and emits no event. This does not even
  depend on the revert undoing anything: at the point where the body stops, it has
  neither written to storage nor appended to the log.
\<close>

theorem failed_write_is_atomic:
  "(isl (status (transact e (RecordPitchScore p a b c d f z) s)) \<longleftrightarrow>
      (msg_sender e \<noteq> owner s \<or> timestamp (pitchScores s p) \<noteq> 0 \<or> \<not> 0 < a))
   \<and> (isl (status (transact e (RecordPitchScore p a b c d f z) s)) \<longrightarrow>
        post (transact e (RecordPitchScore p a b c d f z) s) = s
        \<and> events (transact e (RecordPitchScore p a b c d f z) s) = [])
   \<and> (isl (fst (recordPitchScore e p a b c d f z \<sigma>)) \<longrightarrow>
        snd (recordPitchScore e p a b c d f z \<sigma>) = \<sigma>)"
  by (simp add: transact_record recordPitchScore_fails_in_place)

text \<open>The owner submits overall score 0; a stranger submits valid scores.\<close>

theorem failed_write_is_atomic_witness:
  "isl (status (transact \<lparr>msg_sender = writer, block_timestamp = 5000\<rparr>
          (RecordPitchScore H3 0 20 18 22 20 170) fresh_registry))
   \<and> post (transact \<lparr>msg_sender = writer, block_timestamp = 5000\<rparr>
          (RecordPitchScore H3 0 20 18 22 20 170) fresh_registry) = fresh_registry
   \<and> events (transact \<lparr>msg_sender = writer, block_timestamp = 5000\<rparr>
          (RecordPitchScore H3 0 20 18 22 20 170) fresh_registry) = []
   \<and> isl (fst (recordPitchScore \<lparr>msg_sender = stranger, block_timestamp = 5000\<rparr> H3 80 20 18 22 20 170
          \<lparr>storage = fresh_registry, emitted = []\<rparr>))
   \<and> snd (recordPitchScore \<lparr>msg_sender = stranger, block_timestamp = 5000\<rparr> H3 80 20 18 22 20 170
          \<lparr>storage = fresh_registry, emitted = []\<rparr>) = \<lparr>storage = fresh_registry, emitted = []\<rparr>"
  using
    failed_write_is_atomic
      [of "\<lparr>msg_sender = writer, block_timestamp = 5000\<rparr>" H3 0 20 18 22 20 170 fresh_registry]
    failed_write_is_atomic
      [of "\<lparr>msg_sender = stranger, block_timestamp = 5000\<rparr>" H3 80 20 18 22 20 170 fresh_registry
          "\<lparr>storage = fresh_registry, emitted = []\<rparr>"]
  by (simp add: recordPitchScore_run fixtures)

subsection \<open>Order of the preconditions\<close>

text \<open>
  C4 (precondition order). \<^verbatim>\<open>recordPitchScore\<close> checks the sender first, then that the id
  has no entry yet (its stored \<^verbatim>\<open>timestamp\<close> is 0), then that the overall score is positive,
  and the message of the first failing check is the one reported. The three messages are
  different from each other.
\<close>

theorem precondition_order:
  "status (transact e (RecordPitchScore p a b c d f z) s) =
     (if msg_sender e \<noteq> owner s then Inl Unauthorized
      else if timestamp (pitchScores s p) \<noteq> 0 then Inl DuplicateEntry
      else if \<not> 0 < a then Inl InvalidScore
      else Inr RetUnit)
   \<and> Unauthorized \<noteq> DuplicateEntry \<and> DuplicateEntry \<noteq> InvalidScore \<and> Unauthorized \<noteq> InvalidScore"
  by (simp add: transact_record error_kinds_distinct)

text \<open>
  After the owner has recorded \<open>H1\<close>: a stranger writing \<open>H1\<close> again gets \<open>Unauthorized\<close>,
  the owner writing \<open>H1\<close> again with overall score 0 gets \<open>DuplicateEntry\<close>, and the owner
  writing the fresh id \<open>H3\<close> with overall score 0 gets \<open>InvalidScore\<close>.
\<close>

theorem precondition_order_witness:
  "status (transact \<lparr>msg_sender = stranger, block_timestamp = 6000\<rparr>
       (RecordPitchScore H1 0 10 15 20 10 187)
       (post (transact \<lparr>msg_sender = writer, block_timestamp = 5000\<rparr> scenarioA fresh_registry)))
     = Inl Unauthorized
   \<and> status (transact \<lparr>msg_sender = writer, block_timestamp = 6000\<rparr>
       (RecordPitchScore H1 0 10 15 20 10 187)
       (post (transact \<lparr>msg_sender = writer, block_timestamp = 5000\<rparr> scenarioA fresh_registry)))
     = Inl DuplicateEntry
   \<and> status (transact \<lparr>msg_sender = writer, block_timestamp = 6000\<rparr>
       (RecordPitchScore H3 0 10 15 20 10 187)
       (post (transact \<lparr>msg_sender = writer, block_timestamp = 5000\<rparr> scenarioA fresh_registry)))
     = Inl InvalidScore
   \<and> Unauthorized \<noteq> DuplicateEntry \<and> DuplicateEntry \<noteq> InvalidScore"
  using
    precondition_order [of "\<lparr>msg_sender = stranger, block_timestamp = 6000\<rparr>" H1 0 10 15 20 10 187
      "post (transact \<lparr>msg_sender = writer, block_timestamp = 5000\<rparr> scenarioA fresh_registry)"]
    precondition_order [of "\<lparr>msg_sender = writer, block_timestamp = 6000\<rparr>" H1 0 10 15 20 10 187
      "post (transact \<lparr>msg_sender = writer, block_timestamp = 5000\<rparr> scenarioA fresh_registry)"]
    precondition_order [of "\<lparr>msg_sender = writer, block_timestamp = 6000\<rparr>" H3 0 10 15 20 10 187
      "post (transact \<lparr>msg_sender = writer, block_timestamp = 5000\<rparr> scenarioA fresh_registry)"]
  by (simp add: transact_record fixtures zero_entry_def)

subsection \<open>Positivity\<close>

text \<open>
  C5 (positivity), as the code has it. A \<^verbatim>\<open>recordPitchScore\<close> call with overall score 0
  always fails and changes nothing; the failure is \<open>InvalidScore\<close> when the sender is the
  owner and the id has no entry, since the two earlier checks report first otherwise.
  Hence in every state reached from deployment an existing entry (indeed every slot that
  is not all zero) has a positive overall score.
\<close>

theorem zero_score_rejected:
  "(a = 0 \<longrightarrow>
      isl (status (transact e (RecordPitchScore p a b c d f z) s))
      \<and> post (transact e (RecordPitchScore p a b c d f z) s) = s
      \<and> events (transact e (RecordPitchScore p a b c d f z) s) = []
      \<and> (msg_sender e = owner s \<and> timestamp (pitchScores s p) = 0 \<longrightarrow>
           status (transact e (RecordPitchScore p a b c d f z) s) = Inl InvalidScore))
   \<and> (timestamp (pitchScores (run txs (constructor e0)) q) \<noteq> 0 \<longrightarrow>
        0 < overallScore (pitchScores (run txs (constructor e0)) q))
   \<and> (pitchScores (run txs (constructor e0)) q \<noteq> zero_entry \<longrightarrow>
        0 < overallScore (pitchScores (run txs (constructor e0)) q))"
proof -
  have "entry_ok (run txs (constructor e0)) q"
    by (rule entry_ok_run) (rule entry_ok_constructor)
  then have inv: "pitchScores (run txs (constructor e0)) q \<noteq> zero_entry \<longrightarrow>
        0 < overallScore (pitchScores (run txs (constructor e0)) q)"
    by (auto simp: entry_ok_def)
  have "timestamp (pitchScores (run txs (constructor e0)) q) \<noteq> 0 \<longrightarrow>
        pitchScores (run txs (constructor e0)) q \<noteq> zero_entry"
    by (auto simp: zero_entry_def)
  with inv show ?thesis
    by (simp add: transact_record)
qed

text \<open>The owner submits overall score 0 for \<open>H3\<close>; and the entry recorded for \<open>H1\<close>.\<close>

theorem zero_score_rejected_witness:
  "status (transact \<lparr>msg_sender = writer, block_timestamp = 5000\<rparr>
       (RecordPitchScore H3 0 20 18 22 20 170) fresh_registry) = Inl InvalidScore
   \<and> post (transact \<lparr>msg_sender = writer, block_timestamp = 5000\<rparr>
       (RecordPitchScore H3 0 20 18 22 20 170) fresh_registry) = fresh_registry
   \<and> timestamp (pitchScores (run [(\<lparr>msg_sender = writer, block_timestamp = 5000\<rparr>, scenarioA)]
        (constructor \<lparr>msg_sender = writer, block_timestamp = 1000\<rparr>)) H1) \<noteq> 0
   \<and> pitchScores (run [(\<lparr>msg_sender = writer, block_timestamp = 5000\<rparr>, scenarioA)]
        (constructor \<lparr>msg_sender = writer, block_timestamp = 1000\<rparr>)) H1 \<noteq> zero_entry
   \<and> 0 < overallScore (pitchScores (run [(\<lparr>msg_sender = writer, block_timestamp = 5000\<rparr>, scenarioA)]
        (constructor \<lparr>msg_sender = writer, block_timestamp = 1000\<rparr>)) H1)"
  using zero_score_rejected
    [of 0 "\<lparr>msg_sender = writer, block_timestamp = 5000\<rparr>" H3 20 18 22 20 170 fresh_registry
        "[(\<lparr>msg_sender = writer, block_timestamp = 5000\<rparr>, scenarioA)]"
        "\<lparr>msg_sender = writer, block_timestamp = 1000\<rparr>" H1]
  by (simp add: transact_record fixtures zero_entry_def)

text \<open>
  A call with overall score 0 does not always report \<open>InvalidScore\<close>: a stranger gets
  \<open>Unauthorized\<close>, and the owner gets \<open>DuplicateEntry\<close> for an id that has an entry.
\<close>

theorem zero_score_counterexample:
  "status (transact \<lparr>msg_sender = stranger, block_timestamp = 5000\<rparr>
       (RecordPitchScore H3 0 20 18 22 20 170) fresh_registry) = Inl Unauthorized
   \<and> Unauthorized \<noteq> InvalidScore
   \<and> status (transact \<lparr>msg_sender = writer, block_timestamp = 6000\<rparr>
       (RecordPitchScore H1 0 10 15 20 10 187)
       (post (transact \<lparr>msg_sender = writer, block_timestamp = 5000\<rparr> scenarioA fresh_registry)))
     = Inl DuplicateEntry
   \<and> DuplicateEntry \<noteq> InvalidScore"
  by (simp add: transact_record fixtures zero_entry_def error_kinds_distinct)

subsection \<open>Read consistency\<close>

text \<open>
  C6 (read consistency). As long as no \<^verbatim>\<open>recordPitchScore\<close> call for an id has succeeded
  since deployment, \<^verbatim>\<open>getPitchScore\<close> reverts with \<open>NotFound\<close>; once one has, it no longer
  does. After a successful \<^verbatim>\<open>recordPitchScore\<close> call \<^verbatim>\<open>getPitchScore\<close> returns, from then
  on, the six submitted values with that block's timestamp and that call's sender.
  The writes are those of blocks of the chain: their contexts are \<open>live\<close>.
  \<^verbatim>\<open>getPitchScore\<close> changes no storage, emits nothing, and answers every sender alike.
\<close>

theorem read_consistency:
  "(\<not> recorded p txs (constructor e0) \<longrightarrow>
      status (transact e (GetPitchScore p) (run txs (constructor e0))) = Inl NotFound)
   \<and> (live_trace txs \<and> recorded p txs (constructor e0) \<longrightarrow>
      \<not> isl (status (transact e (GetPitchScore p) (run txs (constructor e0)))))
   \<and> (live e1 \<and> status (transact e1 (RecordPitchScore p a b c d f z) s) = Inr v \<longrightarrow>
        status (transact e (GetPitchScore p)
          (run txs (post (transact e1 (RecordPitchScore p a b c d f z) s))))
        = Inr (RetEntry (a, b, c, d, f, z, block_timestamp e1, msg_sender e1)))
   \<and> post (transact e (GetPitchScore p) s) = s
   \<and> events (transact e (GetPitchScore p) s) = []
   \<and> status (transact e (GetPitchScore p) s) = status (transact e' (GetPitchScore p) s)"
proof -
  have before: "status (transact e (GetPitchScore p) (run txs (constructor e0))) = Inl NotFound"
    if "\<not> recorded p txs (constructor e0)"
  proof -
    from that have "pitchScores (run txs (constructor e0)) p = zero_entry"
      by (simp add: unrecorded_run constructor_entries)
    then show ?thesis
      by (simp add: transact_get zero_entry_def)
  qed
  have found: "\<not> isl (status (transact e (GetPitchScore p) (run txs (constructor e0))))"
    if "live_trace txs" and "recorded p txs (constructor e0)"
    using recorded_live [OF that] by (simp add: transact_get)
  have after: "status (transact e (GetPitchScore p)
          (run txs (post (transact e1 (RecordPitchScore p a b c d f z) s))))
        = Inr (RetEntry (a, b, c, d, f, z, block_timestamp e1, msg_sender e1))"
    if lv: "live e1"
      and ok: "status (transact e1 (RecordPitchScore p a b c d f z) s) = Inr v"
  proof -
    from lv have ts: "block_timestamp e1 \<noteq> 0"
      by (simp add: live_def)
    from ok have written: "pitchScores (post (transact e1 (RecordPitchScore p a b c d f z) s)) p =
        \<lparr>overallScore = a, clarityScore = b, originalityScore = c, teamStrengthScore = d,
         marketFitScore = f, zkpHash = z, timestamp = block_timestamp e1,
         recordedBy = msg_sender e1\<rparr>"
      by (simp add: transact_record split: if_splits)
    with ts have "timestamp (pitchScores (post (transact e1 (RecordPitchScore p a b c d f z) s)) p) \<noteq> 0"
      by simp
    from run_keeps_entry [OF this] written
    have "pitchScores (run txs (post (transact e1 (RecordPitchScore p a b c d f z) s))) p =
        \<lparr>overallScore = a, clarityScore = b, originalityScore = c, teamStrengthScore = d,
         marketFitScore = f, zkpHash = z, timestamp = block_timestamp e1,
         recordedBy = msg_sender e1\<rparr>"
      by simp
    with ts show ?thesis
      by (simp add: transact_get entry_fields_def)
  qed
  from before found after show ?thesis
    by (simp add: transact_get)
qed

text \<open>
  After the owner has recorded \<open>H1\<close>, a stranger reads \<open>H2\<close> (not found) and \<open>H1\<close>
  (found) and, after a rejected second write, \<open>H1\<close> again (the values of the first write).
\<close>

theorem read_consistency_witness:
  "\<not> recorded H2 [(\<lparr>msg_sender = writer, block_timestamp = 5000\<rparr>, scenarioA)]
        (constructor \<lparr>msg_sender = writer, block_timestamp = 1000\<rparr>)
   \<and> status (transact \<lparr>msg_sender = stranger, block_timestamp = 7000\<rparr> (GetPitchScore H2)
        (run [(\<lparr>msg_sender = writer, block_timestamp = 5000\<rparr>, scenarioA)]
          (constructor \<lparr>msg_sender = writer, block_timestamp = 1000\<rparr>))) = Inl NotFound
   \<and> live_trace [(\<lparr>msg_sender = writer, block_timestamp = 5000\<rparr>, scenarioA)]
   \<and> recorded H1 [(\<lparr>msg_sender = writer, block_timestamp = 5000\<rparr>, scenarioA)]
        (constructor \<lparr>msg_sender = writer, block_timestamp = 1000\<rparr>)
   \<and> \<not> isl (status (transact \<lparr>msg_sender = stranger, block_timestamp = 7000\<rparr> (GetPitchScore H1)
        (run [(\<lparr>msg_sender = writer, block_timestamp = 5000\<rparr>, scenarioA)]
          (constructor \<lparr>msg_sender = writer, block_timestamp = 1000\<rparr>))))
   \<and> live \<lparr>msg_sender = writer, block_timestamp = 5000\<rparr>
   \<and> status (transact \<lparr>msg_sender = writer, block_timestamp = 5000\<rparr>
        (RecordPitchScore H1 80 20 18 22 20 170) fresh_registry) = Inr RetUnit
   \<and> status (transact \<lparr>msg_sender = stranger, block_timestamp = 7000\<rparr> (GetPitchScore H1)
        (run [(\<lparr>msg_sender = writer, block_timestamp = 6000\<rparr>, scenarioB)]
          (post (transact \<lparr>msg_sender = writer, block_timestamp = 5000\<rparr>
             (RecordPitchScore H1 80 20 18 22 20 170) fresh_registry))))
       = Inr (RetEntry (80, 20, 18, 22, 20, 170, 5000, writer))"
  using
    read_consistency
      [where p = H2 and txs = "[(\<lparr>msg_sender = writer, block_timestamp = 5000\<rparr>, scenarioA)]"
         and ?e0.0 = "\<lparr>msg_sender = writer, block_timestamp = 1000\<rparr>"
         and e = "\<lparr>msg_sender = stranger, block_timestamp = 7000\<rparr>"]
    read_consistency
      [where p = H1 and txs = "[(\<lparr>msg_sender = writer, block_timestamp = 5000\<rparr>, scenarioA)]"
         and ?e0.0 = "\<lparr>msg_sender = writer, block_timestamp = 1000\<rparr>"
         and e = "\<lparr>msg_sender = stranger, block_timestamp = 7000\<rparr>"]
    read_consistency
      [where p = H1 and txs = "[(\<lparr>msg_sender = writer, block_timestamp = 6000\<rparr>, scenarioB)]"
         and ?e1.0 = "\<lparr>msg_sender = writer, block_timestamp = 5000\<rparr>"
         and a = 80 and b = 20 and c = 18 and d = 22 and f = 20 and z = 170
         and s = fresh_registry and v = RetUnit
         and e = "\<lparr>msg_sender = stranger, block_timestamp = 7000\<rparr>"]
  by (simp add: transact_record live_def fixtures zero_entry_def)

subsection \<open>Notification correspondence\<close>

text \<open>
  C7 (notification correspondence). A successful \<^verbatim>\<open>recordPitchScore\<close> call emits exactly
  one \<^verbatim>\<open>PitchScoreRecorded\<close> event. It carries the id, and its overall score, proof hash,
  timestamp and recorder are those of the entry the call has stored under that id, which
  are the submitted score and hash, the block's timestamp and the sender. A call of the
  interface that fails emits no event.
\<close>

theorem notification_matches_record:
  "(status (transact e (RecordPitchScore p a b c d f z) s) = Inr v \<longrightarrow>
      events (transact e (RecordPitchScore p a b c d f z) s) =
        [\<lparr>ev_pitchId = p,
          ev_overallScore = overallScore (pitchScores (post (transact e (RecordPitchScore p a b c d f z) s)) p),
          ev_zkpHash = zkpHash (pitchScores (post (transact e (RecordPitchScore p a b c d f z) s)) p),
          ev_timestamp = timestamp (pitchScores (post (transact e (RecordPitchScore p a b c d f z) s)) p),
          ev_recordedBy = recordedBy (pitchScores (post (transact e (RecordPitchScore p a b c d f z) s)) p)\<rparr>]
      \<and> events (transact e (RecordPitchScore p a b c d f z) s) =
        [\<lparr>ev_pitchId = p, ev_overallScore = a, ev_zkpHash = z,
          ev_timestamp = block_timestamp e, ev_recordedBy = msg_sender e\<rparr>])
   \<and> (isl (status (transact e k s)) \<longrightarrow> events (transact e k s) = [])"
proof -
  have "isl (status (transact e k s)) \<longrightarrow> events (transact e k s) = []"
    by (cases k) (simp_all add: transact_simps)
  then show ?thesis
    by (simp add: transact_record)
qed

text \<open>The owner's write of \<open>H1\<close> emits one event; a stranger's attempt emits none.\<close>

theorem notification_matches_record_witness:
  "status (transact \<lparr>msg_sender = writer, block_timestamp = 5000\<rparr>
        (RecordPitchScore H1 80 20 18 22 20 170) fresh_registry) = Inr RetUnit
   \<and> events (transact \<lparr>msg_sender = writer, block_timestamp = 5000\<rparr>
        (RecordPitchScore H1 80 20 18 22 20 170) fresh_registry) =
        [\<lparr>ev_pitchId = H1, ev_overallScore = 80, ev_zkpHash = 170,
          ev_timestamp = 5000, ev_recordedBy = writer\<rparr>]
   \<and> isl (status (transact \<lparr>msg_sender = stranger, block_timestamp = 5000\<rparr>
        (RecordPitchScore H1 80 20 18 22 20 170) fresh_registry))
   \<and> events (transact \<lparr>msg_sender = stranger, block_timestamp = 5000\<rparr>
        (RecordPitchScore H1 80 20 18 22 20 170) fresh_registry) = []"
  using
    notification_matches_record
      [where e = "\<lparr>msg_sender = writer, block_timestamp = 5000\<rparr>" and p = H1
         and a = 80 and b = 20 and c = 18 and d = 22 and f = 20 and z = 170
         and s = fresh_registry and v = RetUnit
         and k = "RecordPitchScore H1 80 20 18 22 20 170"]
    notification_matches_record
      [where e = "\<lparr>msg_sender = stranger, block_timestamp = 5000\<rparr>" and p = H1
         and a = 80 and b = 20 and c = 18 and d = 22 and f = 20 and z = 170
         and s = fresh_registry and v = RetUnit
         and k = "RecordPitchScore H1 80 20 18 22 20 170"]
  by (simp add: transact_record fixtures zero_entry_def)

subsection \<open>The fixed owner\<close>

text \<open>
  C8 (fixed trust root). The constructor sets the owner to the deployer. No call of the
  public interface (\<^verbatim>\<open>recordPitchScore\<close>, \<^verbatim>\<open>getPitchScore\<close>, the getters \<^verbatim>\<open>pitchScores\<close> and
  \<^verbatim>\<open>owner\<close>) changes it, whether it succeeds or not, so after any sequence of transactions
  the owner is still the deployer, and that is what the \<^verbatim>\<open>owner\<close> getter answers.
\<close>

theorem owner_is_fixed:
  "owner (constructor e0) = msg_sender e0
   \<and> owner (post (transact e k s)) = owner s
   \<and> owner (run txs (constructor e0)) = msg_sender e0
   \<and> status (transact e Owner (run txs (constructor e0))) = Inr (RetAddress (msg_sender e0))"
  by (simp add: constructor_owner post_owner run_owner transact_owner)

text \<open>A stranger's and the owner's write later, the owner is who deployed.\<close>

theorem owner_is_fixed_witness:
  "owner (run [(\<lparr>msg_sender = stranger, block_timestamp = 5000\<rparr>, scenarioA),
               (\<lparr>msg_sender = writer, block_timestamp = 6000\<rparr>, scenarioA)] fresh_registry) = writer"
  using owner_is_fixed
    [where ?e0.0 = "\<lparr>msg_sender = writer, block_timestamp = 1000\<rparr>"
       and txs = "[(\<lparr>msg_sender = stranger, block_timestamp = 5000\<rparr>, scenarioA),
               (\<lparr>msg_sender = writer, block_timestamp = 6000\<rparr>, scenarioA)]"]
  by (simp add: fresh_registry_def)

subsection \<open>Who recorded\<close>

text \<open>
  C9 (recorder is the owner). In every state reached from deployment, every existing
  entry (indeed every slot that is not all zero) names the deployer in \<^verbatim>\<open>recordedBy\<close>.
\<close>

theorem recordedBy_is_owner:
  "(timestamp (pitchScores (run txs (constructor e0)) p) \<noteq> 0 \<longrightarrow>
      recordedBy (pitchScores (run txs (constructor e0)) p) = msg_sender e0)
   \<and> (pitchScores (run txs (constructor e0)) p \<noteq> zero_entry \<longrightarrow>
      recordedBy (pitchScores (run txs (constructor e0)) p) = msg_sender e0)"
proof -
  have "entry_ok (run txs (constructor e0)) p"
    by (rule entry_ok_run) (rule entry_ok_constructor)
  then have inv: "pitchScores (run txs (constructor e0)) p \<noteq> zero_entry \<longrightarrow>
      recordedBy (pitchScores (run txs (constructor e0)) p) = msg_sender e0"
    by (auto simp: entry_ok_def run_owner constructor_owner)
  have "timestamp (pitchScores (run txs (constructor e0)) p) \<noteq> 0 \<longrightarrow>
        pitchScores (run txs (constructor e0)) p \<noteq> zero_entry"
    by (auto simp: zero_entry_def)
  with inv show ?thesis by blast
qed

text \<open>The entry the owner has recorded for \<open>H1\<close>.\<close>

theorem recordedBy_is_owner_witness:
  "timestamp (pitchScores (run [(\<lparr>msg_sender = writer, block_timestamp = 5000\<rparr>, scenarioA)]
        (constructor \<lparr>msg_sender = writer, block_timestamp = 1000\<rparr>)) H1) \<noteq> 0
   \<and> pitchScores (run [(\<lparr>msg_sender = writer, block_timestamp = 5000\<rparr>, scenarioA)]
        (constructor \<lparr>msg_sender = writer, block_timestamp = 1000\<rparr>)) H1 \<noteq> zero_entry
   \<and> recordedBy (pitchScores (run [(\<lparr>msg_sender = writer, block_timestamp = 5000\<rparr>, scenarioA)]
        (constructor \<lparr>msg_sender = writer, block_timestamp = 1000\<rparr>)) H1) = writer"
  using recordedBy_is_owner
    [of "[(\<lparr>msg_sender = writer, block_timestamp = 5000\<rparr>, scenarioA)]"
        "\<lparr>msg_sender = writer, block_timestamp = 1000\<rparr>" H1]
  by (simp add: transact_record fixtures zero_entry_def)

subsection \<open>The generated getter of the mapping\<close>

text \<open>
  C10 (second read path). The getter generated for the public mapping \<^verbatim>\<open>pitchScores\<close>
  never reverts: it returns the eight fields of whatever the slot holds, changes nothing
  and emits nothing. For an id no \<^verbatim>\<open>recordPitchScore\<close> call has succeeded for, it returns
  eight zeros, a tuple of the same shape as a real entry, where \<^verbatim>\<open>getPitchScore\<close> reverts
  with \<open>NotFound\<close>.
\<close>

theorem public_getter_returns_zero_record:
  "(\<not> recorded p txs (constructor e0) \<longrightarrow>
      status (transact e (PitchScores p) (run txs (constructor e0)))
        = Inr (RetEntry (0, 0, 0, 0, 0, 0, 0, 0))
      \<and> status (transact e (GetPitchScore p) (run txs (constructor e0))) = Inl NotFound)
   \<and> status (transact e (PitchScores p) s) = Inr (RetEntry (entry_fields (pitchScores s p)))
   \<and> post (transact e (PitchScores p) s) = s
   \<and> events (transact e (PitchScores p) s) = []"
proof -
  have "pitchScores (run txs (constructor e0)) p = zero_entry"
    if "\<not> recorded p txs (constructor e0)"
    using that by (simp add: unrecorded_run constructor_entries)
  then show ?thesis
    by (auto simp: transact_getter transact_get entry_fields_def zero_entry_def)
qed

text \<open>After the owner has recorded \<open>H1\<close>, a stranger asks the getter for \<open>H2\<close>.\<close>

theorem public_getter_returns_zero_record_witness:
  "\<not> recorded H2 [(\<lparr>msg_sender = writer, block_timestamp = 5000\<rparr>, scenarioA)]
        (constructor \<lparr>msg_sender = writer, block_timestamp = 1000\<rparr>)
   \<and> status (transact \<lparr>msg_sender = stranger, block_timestamp = 7000\<rparr> (PitchScores H2)
        (run [(\<lparr>msg_sender = writer, block_timestamp = 5000\<rparr>, scenarioA)]
          (constructor \<lparr>msg_sender = writer, block_timestamp = 1000\<rparr>)))
       = Inr (RetEntry (0, 0, 0, 0, 0, 0, 0, 0))"
  using public_getter_returns_zero_record
    [where p = H2 and txs = "[(\<lparr>msg_sender = writer, block_timestamp = 5000\<rparr>, scenarioA)]"
       and ?e0.0 = "\<lparr>msg_sender = writer, block_timestamp = 1000\<rparr>"
       and e = "\<lparr>msg_sender = stranger, block_timestamp = 7000\<rparr>" and s = fresh_registry]
  by (simp add: transact_simps entry_fields_def fixtures zero_entry_def)

end
